theory Spec2Isabelle
  imports Complex_Main
begin

section \<open>Values, instants and exceptions\<close>

text \<open>
  The program is Python 2. A \<open>str\<close> is a byte string, so both text and wire bytes are
  \<^typ>\<open>string\<close> here. A sample value is an int, a float or a str; floats are modelled by
  exact reals (the rounding of a double is not part of this development).
\<close>

datatype pyval = PInt int | PFloat real | PStr string

text \<open>
  A naive UTC \<open>datetime\<close> has microsecond resolution: it is the number of microseconds
  since 1970-01-01T00:00:00. A \<open>timedelta\<close> is a number of microseconds.
\<close>

type_synonym datetime = int
type_synonym timedelta = int

definition datetime_1970 :: datetime where
  "datetime_1970 = 0"

definition total_seconds :: "timedelta \<Rightarrow> real" where
  "total_seconds d = real_of_int d / 1000000"

text \<open>
  The exception classes that the program raises or meets. In Python 2.7
  \<open>socket.timeout\<close> and \<open>ssl.SSLError\<close> are subclasses of \<open>socket.error\<close>, and
  \<open>urllib2.HTTPError\<close> (with its status code) is a subclass of \<open>urllib2.URLError\<close>
  (with its reason). \<open>SocketError\<close> stands for a \<open>socket.error\<close> that is neither of
  the two subclasses.
\<close>

datatype exn =
    SocketTimeout
  | SocketError
  | SSLError
  | HTTPError int
  | URLError exn
  | CalledProcessError int
  | UnboundLocalError
  | AttributeError
  | TypeError
  | StructError
  | OtherException

fun isinstance_socket_timeout :: "exn \<Rightarrow> bool" where
  "isinstance_socket_timeout SocketTimeout = True"
| "isinstance_socket_timeout _ = False"

fun isinstance_socket_error :: "exn \<Rightarrow> bool" where
  "isinstance_socket_error SocketTimeout = True"
| "isinstance_socket_error SocketError = True"
| "isinstance_socket_error SSLError = True"
| "isinstance_socket_error _ = False"

fun isinstance_SSLError :: "exn \<Rightarrow> bool" where
  "isinstance_SSLError SSLError = True"
| "isinstance_SSLError _ = False"

section \<open>The class Metrics\<close>

type_synonym sample = "string \<times> (real \<times> pyval)"

datatype Metrics = Metrics (metrics: "sample list")

definition Add :: "Metrics \<Rightarrow> string \<Rightarrow> pyval \<Rightarrow> datetime \<Rightarrow> Metrics" where
  "Add self param val time =
     Metrics (metrics self @ [(param, (total_seconds (time - datetime_1970), val))])"

definition Metrics_add :: "Metrics \<Rightarrow> Metrics \<Rightarrow> Metrics" where
  "Metrics_add self other = Metrics (metrics self @ metrics other)"

text \<open>
  \<open>Prefixed\<close> formats each prefix with \<open>"%s." % prefix\<close>. The program passes strings
  (server name, scheme, identifier) and ints (ports); \<open>str\<close> of an int is its decimal
  numeral.
\<close>

datatype prefix = PrefixStr string | PrefixInt int

function str_nat :: "nat \<Rightarrow> string" where
  "str_nat n =
     (if n < 10 then [char_of (48 + n)]
      else str_nat (n div 10) @ [char_of (48 + n mod 10)])"
  by pat_completeness auto
termination
  by (relation "measure (\<lambda>n. n)") auto

declare str_nat.simps [simp del]

definition str_int :: "int \<Rightarrow> string" where
  "str_int i = (if i < 0 then ''-'' @ str_nat (nat (- i)) else str_nat (nat i))"

fun format_s :: "prefix \<Rightarrow> string" where
  "format_s (PrefixStr s) = s"
| "format_s (PrefixInt i) = str_int i"

definition Prefixed :: "Metrics \<Rightarrow> prefix list \<Rightarrow> Metrics" where
  "Prefixed self prefixes =
     (let prefix_str = concat (map (\<lambda>prefix. format_s prefix @ ''.'') prefixes)
      in Metrics (map (\<lambda>m. (prefix_str @ fst m, snd m)) (metrics self)))"

subsection \<open>Serialize\<close>

text \<open>
  \<open>struct.pack("!L", n)\<close> gives the four bytes of \<open>n\<close>, most significant first, and
  raises \<open>struct.error\<close> when \<open>n\<close> does not fit 32 bits (\<open>char_of\<close> keeps the low eight
  bits of its argument). \<open>struct_unpack_L\<close> reads four such bytes back.
\<close>

definition struct_pack_L :: "nat \<Rightarrow> exn + string" where
  "struct_pack_L n =
     (if n < 2 ^ 32
      then Inr [char_of (n div 2 ^ 24), char_of (n div 2 ^ 16), char_of (n div 2 ^ 8), char_of n]
      else Inl StructError)"

fun struct_unpack_L :: "string \<Rightarrow> nat option" where
  "struct_unpack_L [b3, b2, b1, b0] =
     Some (of_char b3 * 2 ^ 24 + of_char b2 * 2 ^ 16 + of_char b1 * 2 ^ 8 + of_char b0)"
| "struct_unpack_L _ = None"

text \<open>
  \<open>pickle.dumps(_, protocol=2)\<close> is the Python library's serializer, not code of the
  program: it is the parameter \<open>pickle_dumps\<close>.
\<close>

definition Serialize :: "(sample list \<Rightarrow> string) \<Rightarrow> Metrics \<Rightarrow> exn + string" where
  "Serialize pickle_dumps self =
     (let payload = pickle_dumps (metrics self)
      in case struct_pack_L (length payload) of
           Inl e \<Rightarrow> Inl e
         | Inr header \<Rightarrow> Inr (header @ payload))"

section \<open>What one cycle observes\<close>

text \<open>
  The program reads the clock and talks to sockets, to an HTTP library and to a child
  process. Each call's answer is a field of an observation record, in the order of the
  calls; a library call that may raise answers with \<open>Inl\<close> of the exception.
\<close>

record sock_obs =
  sock_utcnow_start :: datetime
  create_connection :: "exn + unit"
  sock_utcnow_connected :: datetime
  wrap_socket :: "exn + string option"
    \<comment> \<open>the wrapped socket, given by what its \<open>getpeercert(True)\<close> returns\<close>
  sock_utcnow_handshake :: datetime

record http_obs =
  http_utcnow_start :: datetime
  urlopen :: "exn + int"
    \<comment> \<open>the response, given by its status code\<close>
  read_1 :: "exn + string"
  http_utcnow_first :: datetime
  read_rest :: "exn + string"
  http_utcnow_last :: datetime

record ping_obs =
  ping_utcnow_start :: datetime
  check_output :: "exn + string"

record cycle_obs =
  http_obs_at :: "nat \<Rightarrow> nat \<Rightarrow> http_obs"
    \<comment> \<open>by position of the scheme and of the server in their lists\<close>
  sock_obs_at :: "nat \<Rightarrow> nat \<Rightarrow> sock_obs"
  ssl_obs_at :: "nat \<Rightarrow> nat \<Rightarrow> sock_obs"
  ping_obs_at :: "nat \<Rightarrow> ping_obs"
  graphite_create_connection :: "exn + unit"
  graphite_sendall :: "exn + unit"
  utcnow_after :: datetime

record args =
  timeout :: int
  graphite :: string
  graphite_port :: int
  period :: timedelta
  server :: "(string \<times> string) list"
  sock_port :: "int list"
  ssl_port :: "int list"
  scheme :: "string list"
  host :: "string option"
  user :: "string option"
  path :: string
  ping :: bool
  "identifier" :: string

section \<open>Sending\<close>

text \<open>
  \<open>SendMetrics\<close> returns nothing in the program; here it returns the bytes it wrote to
  the collector. No exception is caught.
\<close>

definition SendMetrics ::
  "(sample list \<Rightarrow> string) \<Rightarrow> Metrics \<Rightarrow> cycle_obs \<Rightarrow> exn + string" where
  "SendMetrics pickle_dumps metrics_arg w =
     (case Serialize pickle_dumps metrics_arg of
        Inl e \<Rightarrow> Inl e
      | Inr serialized_metrics \<Rightarrow>
          (case graphite_create_connection w of
             Inl e \<Rightarrow> Inl e
           | Inr sock \<Rightarrow>
               (case graphite_sendall w of
                  Inl e \<Rightarrow> Inl e
                | Inr _ \<Rightarrow> Inr serialized_metrics)))"

section \<open>The probes\<close>

subsection \<open>TCP connect and TLS handshake\<close>

text \<open>
  After a swallowed \<open>ssl.SSLError\<close> the local variable \<open>ssl_sock\<close> is unbound, and reading
  it raises \<open>UnboundLocalError\<close>. Below, \<open>ssl_sock\<close> is an option: \<open>None\<close> while the
  variable is unbound, \<open>Some s\<close> once it holds the wrapped socket \<open>s\<close>. When the peer sent
  no certificate, \<open>getpeercert(True)\<close> returns Python's \<open>None\<close>, and \<open>len\<close> of it raises
  \<open>TypeError\<close>.
\<close>

definition GatherServerSocketMetrics ::
  "args \<Rightarrow> string \<times> string \<Rightarrow> int \<Rightarrow> bool \<Rightarrow> sock_obs \<Rightarrow> exn + Metrics" where
  "GatherServerSocketMetrics a server_arg port do_ssl w =
     (let m0 = Metrics [];
          start = sock_utcnow_start w
      in case create_connection w of
           Inl e \<Rightarrow>
             if isinstance_socket_timeout e
             then Inr (Prefixed (Add m0 ''timeout'' (PInt 1) start)
                         [PrefixStr (fst server_arg), PrefixInt port])
             else if isinstance_socket_error e
             then Inr (Prefixed (Add m0 ''errors'' (PInt 1) start)
                         [PrefixStr (fst server_arg), PrefixInt port])
             else Inl e
         | Inr sock \<Rightarrow>
             let m1 = Add m0 ''connect_time''
                        (PFloat (total_seconds (sock_utcnow_connected w - start))) start
             in if do_ssl
                then
                  (case (case wrap_socket w of
                           Inr s \<Rightarrow> Inr (Some s)
                         | Inl e \<Rightarrow> if isinstance_SSLError e then Inr None else Inl e) of
                     Inl e \<Rightarrow> Inl e
                   | Inr ssl_sock \<Rightarrow>
                       let m2 = Add m1 ''ssl_handshake_time''
                                  (PFloat (total_seconds (sock_utcnow_handshake w - start))) start
                       in (case ssl_sock of
                             None \<Rightarrow> Inl UnboundLocalError
                           | Some None \<Rightarrow> Inl TypeError
                           | Some (Some cert) \<Rightarrow>
                               Inr (Prefixed
                                      (Add m2 ''ssl_cert_length'' (PInt (int (length cert))) start)
                                      [PrefixStr (fst server_arg), PrefixInt port])))
                else Inr (Prefixed m1 [PrefixStr (fst server_arg), PrefixInt port]))"

subsection \<open>HTTP request\<close>

text \<open>
  The request (URL, \<open>Host\<close> and \<open>Authorization\<close> headers) only decides what the library
  answers, which is the observation. \<open>http_read_response\<close> is the part of
  \<open>GatherServerHttpMetrics\<close> after the \<open>try\<close> statement, reached with a response or with
  an \<open>HTTPError\<close> used as one.
\<close>

definition http_read_response ::
  "Metrics \<Rightarrow> datetime \<Rightarrow> int \<Rightarrow> string \<times> string \<Rightarrow> string \<Rightarrow> http_obs \<Rightarrow> exn + Metrics" where
  "http_read_response m0 start code server_arg schema w =
     (case read_1 w of
        Inl e \<Rightarrow> Inl e
      | Inr first \<Rightarrow>
          let size0 = int (length first);
              m1 = Add m0 ''time_to_first_byte''
                     (PFloat (total_seconds (http_utcnow_first w - start))) start
          in (case read_rest w of
                Inl e \<Rightarrow> Inl e
              | Inr rest \<Rightarrow>
                  let size1 = size0 + int (length rest);
                      m2 = Add m1 ''time_to_last_byte''
                             (PFloat (total_seconds (http_utcnow_last w - start))) start;
                      m3 = Add m2 ''code'' (PInt code) start;
                      m4 = Add m3 ''size'' (PInt size1) start
                  in Inr (Prefixed m4 [PrefixStr (fst server_arg), PrefixStr schema])))"

definition GatherServerHttpMetrics ::
  "args \<Rightarrow> string \<Rightarrow> string \<times> string \<Rightarrow> http_obs \<Rightarrow> exn + Metrics" where
  "GatherServerHttpMetrics a schema server_arg w =
     (let m0 = Metrics [];
          start = http_utcnow_start w
      in case urlopen w of
           Inr response \<Rightarrow> http_read_response m0 start response server_arg schema w
         | Inl (HTTPError code) \<Rightarrow>
             http_read_response (Add m0 ''errors'' (PInt 1) start) start code server_arg schema w
         | Inl (URLError reason) \<Rightarrow>
             let m1 = Add m0 ''errors'' (PInt 1) start;
                 m2 = (if isinstance_socket_timeout reason
                       then Add m1 ''timeout'' (PInt 1) start
                       else Add m1 ''errors'' (PInt 1) start)
             in Inr (Prefixed m2 [PrefixStr (fst server_arg), PrefixStr schema])
         | Inl e \<Rightarrow> Inl e)"

subsection \<open>Ping\<close>

text \<open>
  The regular expression of \<open>GatherPingMetrics\<close> is the literal
  \<open>rtt min/avg/max/mdev = \<close>, four groups \<open>[\d.]*\<close> separated by \<open>/\<close>, and the literal
  \<open> ms\<close>. A group is greedy, and the character after a group (\<open>/\<close> or a space) is not in
  its class, so at a given position the only way to match is to take each run of digits
  and dots whole. \<open>re.search\<close> takes the leftmost position where the pattern matches and
  returns \<open>None\<close> when there is none. The result is the \<open>groupdict()\<close> of the match.
\<close>

definition rtt_class :: "char \<Rightarrow> bool" where
  "rtt_class c = (c \<in> set ''0123456789.'')"

fun strip_literal :: "string \<Rightarrow> string \<Rightarrow> string option" where
  "strip_literal [] s = Some s"
| "strip_literal (p # ps) [] = None"
| "strip_literal (p # ps) (c # cs) = (if p = c then strip_literal ps cs else None)"

definition rtt_match_at :: "string \<Rightarrow> (string \<times> string) list option" where
  "rtt_match_at s =
     (case strip_literal ''rtt min/avg/max/mdev = '' s of
        None \<Rightarrow> None
      | Some s1 \<Rightarrow>
     (case strip_literal ''/'' (dropWhile rtt_class s1) of
        None \<Rightarrow> None
      | Some s2 \<Rightarrow>
     (case strip_literal ''/'' (dropWhile rtt_class s2) of
        None \<Rightarrow> None
      | Some s3 \<Rightarrow>
     (case strip_literal ''/'' (dropWhile rtt_class s3) of
        None \<Rightarrow> None
      | Some s4 \<Rightarrow>
     (case strip_literal '' ms'' (dropWhile rtt_class s4) of
        None \<Rightarrow> None
      | Some _ \<Rightarrow>
          Some [(''min'', takeWhile rtt_class s1), (''avg'', takeWhile rtt_class s2),
                (''max'', takeWhile rtt_class s3), (''mdev'', takeWhile rtt_class s4)])))))"

fun re_search :: "string \<Rightarrow> (string \<times> string) list option" where
  "re_search [] = rtt_match_at []"
| "re_search (c # cs) =
     (case rtt_match_at (c # cs) of
        Some groupdict \<Rightarrow> Some groupdict
      | None \<Rightarrow> re_search cs)"

text \<open>
  The order in which a Python 2 dict yields its items is not fixed by the language: it is
  the parameter \<open>key_order\<close>, the keys of the dict in the order of iteration.
\<close>

definition dict_items :: "string list \<Rightarrow> (string \<times> string) list \<Rightarrow> (string \<times> string) list" where
  "dict_items key_order d = List.map_filter (\<lambda>k. map_option (Pair k) (map_of d k)) key_order"

definition GatherPingMetrics ::
  "string list \<Rightarrow> args \<Rightarrow> string \<times> string \<Rightarrow> ping_obs \<Rightarrow> exn + Metrics" where
  "GatherPingMetrics key_order a server_arg w =
     (let m0 = Metrics [];
          start = ping_utcnow_start w
      in case check_output w of
           Inl (CalledProcessError returncode) \<Rightarrow>
             let m1 = (if returncode = 1
                       then Add m0 ''timeout'' (PInt 1) start
                       else Add m0 ''errors'' (PInt 1) start)
             in Inr (Prefixed m1 [PrefixStr (fst server_arg), PrefixStr ''ping''])
         | Inl e \<Rightarrow> Inl e
         | Inr output \<Rightarrow>
             (case re_search output of
                None \<Rightarrow> Inl AttributeError
              | Some groupdict \<Rightarrow>
                  let m1 = foldl (\<lambda>m (k, v). Add m k (PStr v) start) m0
                             (dict_items key_order groupdict)
                  in Inr (Prefixed m1 [PrefixStr (fst server_arg), PrefixStr ''ping''])))"

section \<open>One cycle and the main loop\<close>

text \<open>
  \<open>reduce(lambda a, b: a+b, ...)\<close> over the results of the probes, run in order: the
  first exception ends the reduction, and an empty sequence raises \<open>TypeError\<close>.
\<close>

fun reduce_add_from :: "Metrics \<Rightarrow> (exn + Metrics) list \<Rightarrow> exn + Metrics" where
  "reduce_add_from acc [] = Inr acc"
| "reduce_add_from acc (Inl e # rs) = Inl e"
| "reduce_add_from acc (Inr b # rs) = reduce_add_from (Metrics_add acc b) rs"

fun reduce_add :: "(exn + Metrics) list \<Rightarrow> exn + Metrics" where
  "reduce_add [] = Inl TypeError"
| "reduce_add (Inl e # rs) = Inl e"
| "reduce_add (Inr a # rs) = reduce_add_from a rs"

definition GatherAllMetrics :: "string list \<Rightarrow> args \<Rightarrow> cycle_obs \<Rightarrow> exn + Metrics" where
  "GatherAllMetrics key_order a w =
     (case reduce_add (concat (map (\<lambda>(i, schema). map (\<lambda>(j, server_arg).
               GatherServerHttpMetrics a schema server_arg (http_obs_at w i j))
               (enumerate 0 (server a))) (enumerate 0 (scheme a)))) of
        Inl e \<Rightarrow> Inl e
      | Inr http_metrics \<Rightarrow>
     (case reduce_add (concat (map (\<lambda>(i, port). map (\<lambda>(j, server_arg).
               GatherServerSocketMetrics a server_arg port False (sock_obs_at w i j))
               (enumerate 0 (server a))) (enumerate 0 (sock_port a)))) of
        Inl e \<Rightarrow> Inl e
      | Inr socket_metrics \<Rightarrow>
     (case reduce_add (concat (map (\<lambda>(i, port). map (\<lambda>(j, server_arg).
               GatherServerSocketMetrics a server_arg port True (ssl_obs_at w i j))
               (enumerate 0 (server a))) (enumerate 0 (ssl_port a)))) of
        Inl e \<Rightarrow> Inl e
      | Inr ssl_metrics \<Rightarrow>
          if ping a
          then (case reduce_add (map (\<lambda>(j, server_arg).
                        GatherPingMetrics key_order a server_arg (ping_obs_at w j))
                        (enumerate 0 (server a))) of
                  Inl e \<Rightarrow> Inl e
                | Inr ping_metrics \<Rightarrow>
                    Inr (Metrics_add (Metrics_add (Metrics_add http_metrics socket_metrics)
                           ssl_metrics) ping_metrics))
          else Inr (Metrics_add (Metrics_add http_metrics socket_metrics) ssl_metrics))))"

definition LoopOnce ::
  "string list \<Rightarrow> (sample list \<Rightarrow> string) \<Rightarrow> args \<Rightarrow> cycle_obs \<Rightarrow> exn + string" where
  "LoopOnce key_order pickle_dumps a w =
     (case GatherAllMetrics key_order a w of
        Inl e \<Rightarrow> Inl e
      | Inr gathered \<Rightarrow>
          SendMetrics pickle_dumps
            (Prefixed gathered [PrefixStr ''loga'', PrefixStr (identifier a)]) w)"

text \<open>
  \<open>MainLoop\<close> never returns. It is run here over the observations of the cycles seen so
  far, one element of the list per iteration, and gives what it did (the payloads sent,
  the sleeps, the overrun messages) and where it stands: \<open>Inr last_time\<close> when it is about
  to start the next iteration with that baseline, \<open>Inl e\<close> when the exception \<open>e\<close> has left
  the loop, which ends the process. Only the \<open>logger.error\<close> of the loop is an event.
\<close>

datatype event = Sent string | Sleep real | LogError timedelta timedelta

fun MainLoop_from ::
  "string list \<Rightarrow> (sample list \<Rightarrow> string) \<Rightarrow> args \<Rightarrow> datetime \<Rightarrow> cycle_obs list
     \<Rightarrow> event list \<times> (exn + datetime)" where
  "MainLoop_from key_order pickle_dumps a last_time [] = ([], Inr last_time)"
| "MainLoop_from key_order pickle_dumps a last_time (w # ws) =
     (let next_time = last_time + period a
      in case LoopOnce key_order pickle_dumps a w of
           Inl e \<Rightarrow> ([], Inl e)
         | Inr sent \<Rightarrow>
             let now = utcnow_after w;
                 ev = (if now < next_time
                       then Sleep (total_seconds (next_time - now))
                       else LogError (now - next_time + period a) (period a));
                 rest = MainLoop_from key_order pickle_dumps a next_time ws
             in (Sent sent # ev # fst rest, snd rest))"

definition MainLoop ::
  "string list \<Rightarrow> (sample list \<Rightarrow> string) \<Rightarrow> args \<Rightarrow> datetime \<Rightarrow> cycle_obs list
     \<Rightarrow> event list \<times> (exn + datetime)" where
  "MainLoop key_order pickle_dumps a utcnow_first ws =
     MainLoop_from key_order pickle_dumps a utcnow_first ws"

section \<open>Example inputs\<close>

text \<open>
  One server, one port of each kind, one scheme, no ping. In the example cycle the HTTP
  request times out and both TCP connections are refused.
\<close>

definition example_args :: args where
  "example_args =
     \<lparr>timeout = 300, graphite = ''graphite.example'', graphite_port = 2004,
      period = 60000000, server = [(''web'', ''192.0.2.1'')], sock_port = [80],
      ssl_port = [443], scheme = [''https''], host = None, user = None, path = ''/'',
      ping = False, identifier = ''probe1''\<rparr>"

definition refused_sock :: sock_obs where
  "refused_sock =
     \<lparr>sock_utcnow_start = 1500000, create_connection = Inl SocketError,
      sock_utcnow_connected = 1500000, wrap_socket = Inl SSLError,
      sock_utcnow_handshake = 1500000\<rparr>"

definition refused_http :: http_obs where
  "refused_http =
     \<lparr>http_utcnow_start = 1500000, urlopen = Inl (URLError SocketTimeout),
      read_1 = Inr [], http_utcnow_first = 1500000, read_rest = Inr [],
      http_utcnow_last = 1500000\<rparr>"

definition example_ping :: ping_obs where
  "example_ping =
     \<lparr>ping_utcnow_start = 1500000,
      check_output = Inr ''rtt min/avg/max/mdev = 1.0/2.0/3.0/0.5 ms''\<rparr>"

definition example_cycle :: "exn + unit \<Rightarrow> exn + unit \<Rightarrow> datetime \<Rightarrow> cycle_obs" where
  "example_cycle conn_r send_r now =
     \<lparr>http_obs_at = \<lambda>i j. refused_http, sock_obs_at = \<lambda>i j. refused_sock,
      ssl_obs_at = \<lambda>i j. refused_sock, ping_obs_at = \<lambda>j. example_ping,
      graphite_create_connection = conn_r, graphite_sendall = send_r, utcnow_after = now\<rparr>"

text \<open>
  A stand-in for \<open>pickle.dumps\<close> in the examples: the sample names, one after the other.
  The pickle of a sample set that the program builds holds each of these names, and more.
\<close>

definition example_pickle :: "sample list \<Rightarrow> string" where
  "example_pickle ms = concat (map fst ms)"

definition example_sent :: string where
  "example_sent =
     [char_of (0 :: nat), char_of (0 :: nat), char_of (0 :: nat), char_of (108 :: nat)]
     @ ''loga.probe1.web.https.errorsloga.probe1.web.https.timeoutloga.probe1.web.80.errorsloga.probe1.web.443.errors''"

section \<open>The sample set: prefixing and merging\<close>


text \<open>
  C10. Prefixing distributes over merging: prefixing the concatenation of two sample sets
  gives the concatenation of the two prefixed sample sets, sample by sample.
\<close>

theorem Prefixed_distributes_over_add:
  "Prefixed (Metrics_add A B) ps = Metrics_add (Prefixed A ps) (Prefixed B ps)"
  by (simp add: Prefixed_def Metrics_add_def Let_def)

section \<open>The wire encoding\<close>

lemma be_bytes_sum:
  fixes n :: nat
  assumes "n < 4294967296"
  shows "n div 16777216 mod 256 * 16777216 + n div 65536 mod 256 * 65536
           + n div 256 mod 256 * 256 + n mod 256 = n"
proof -
  have a: "n mod (256 * 256) = 256 * (n div 256 mod 256) + n mod 256"
    by (rule mod_mult2_eq)
  have b: "n mod (65536 * 256) = 65536 * (n div 65536 mod 256) + n mod 65536"
    by (rule mod_mult2_eq)
  have c: "n mod (16777216 * 256) = 16777216 * (n div 16777216 mod 256) + n mod 16777216"
    by (rule mod_mult2_eq)
  have d: "n mod (16777216 * 256) = n"
    using assms by simp
  show ?thesis using a b c d by simp
qed

lemma struct_unpack_pack:
  assumes "n < 2 ^ 32"
  shows "\<exists>header. struct_pack_L n = Inr header \<and> length header = 4
                  \<and> struct_unpack_L header = Some n"
  using assms be_bytes_sum [of n] by (simp add: struct_pack_L_def)

lemma length_concat_replicate: "length (concat (replicate n xs)) = n * length xs"
  by (induction n) simp_all

lemma Serialize_names_too_long:
  assumes "2 ^ 32 \<le> n * length name"
  shows "\<not> length (example_pickle (metrics (Metrics (replicate n (name, tv))))) < 2 ^ 32
       \<and> Serialize example_pickle (Metrics (replicate n (name, tv))) = Inl StructError"
proof -
  have "length (concat (map fst (replicate n (name, tv)))) = n * length name"
    by (simp only: map_replicate fst_conv length_concat_replicate)
  then show ?thesis
    using assms
    by (simp only: Serialize_def struct_pack_L_def Let_def Metrics.sel example_pickle_def) simp
qed

text \<open>
  C8, as amended. For every sample set whose serialized payload is shorter than \<open>2^32\<close>
  bytes, \<open>Serialize\<close> returns a header followed by the payload, where the payload is the
  serialization of the list of \<open>(name, (timestamp, value))\<close> pairs and the header is four
  bytes that read, most significant byte first, as the length of the payload. For a longer
  payload \<open>struct.pack\<close> raises \<open>struct.error\<close> and nothing is returned.
\<close>

theorem Serialize_framing:
  "(length (pickle_dumps (metrics self)) < 2 ^ 32 \<longrightarrow>
      (\<exists>header. Serialize pickle_dumps self = Inr (header @ pickle_dumps (metrics self))
         \<and> length header = 4
         \<and> struct_unpack_L header = Some (length (pickle_dumps (metrics self)))))
   \<and> (\<not> length (pickle_dumps (metrics self)) < 2 ^ 32 \<longrightarrow>
      Serialize pickle_dumps self = Inl StructError)"
proof (cases "length (pickle_dumps (metrics self)) < 2 ^ 32")
  case True
  from struct_unpack_pack [OF True] obtain header where
    h: "struct_pack_L (length (pickle_dumps (metrics self))) = Inr header"
       "length header = 4"
       "struct_unpack_L header = Some (length (pickle_dumps (metrics self)))"
    by blast
  have "Serialize pickle_dumps self = Inr (header @ pickle_dumps (metrics self))"
    using h(1) by (simp add: Serialize_def Let_def)
  with h True show ?thesis by blast
next
  case False
  then show ?thesis by (simp add: Serialize_def struct_pack_L_def Let_def)
qed

text \<open>
  The framing at a sample set of one sample, and at one of \<open>2^28\<close> samples with names of
  16 bytes.
\<close>

theorem Serialize_framing_witness:
  "(\<exists>header. Serialize example_pickle (Metrics [(''web.80.errors'', (3 / 2, PInt 1))])
                = Inr (header @ example_pickle (metrics (Metrics [(''web.80.errors'', (3 / 2, PInt 1))])))
      \<and> length header = 4
      \<and> struct_unpack_L header
          = Some (length (example_pickle (metrics (Metrics [(''web.80.errors'', (3 / 2, PInt 1))])))))
   \<and> Serialize example_pickle (Metrics (replicate (2 ^ 28) (''aaaaaaaaaaaaaaaa'', (0, PInt 1))))
       = Inl StructError"
proof -
  have small: "length (example_pickle (metrics (Metrics [(''web.80.errors'', (3 / 2, PInt 1))])))
                 < 2 ^ 32"
    by (simp add: example_pickle_def)
  have "(2::nat) ^ 32 \<le> 2 ^ 28 * length ''aaaaaaaaaaaaaaaa''"
    by simp
  then have big: "\<not> length (example_pickle (metrics
                      (Metrics (replicate (2 ^ 28) (''aaaaaaaaaaaaaaaa'', (0, PInt 1)))))) < 2 ^ 32"
    using Serialize_names_too_long by blast
  show ?thesis
    using Serialize_framing [of example_pickle "Metrics [(''web.80.errors'', (3 / 2, PInt 1))]"]
          Serialize_framing [of example_pickle
             "Metrics (replicate (2 ^ 28) (''aaaaaaaaaaaaaaaa'', (0, PInt 1)))"]
          small big
    by blast
qed

text \<open>
  C8, as stated, fails: a sample set of \<open>2^28\<close> samples with names of 16 bytes has a
  payload of at least \<open>2^32\<close> bytes, and \<open>Serialize\<close> raises instead of returning a header
  and the payload.
\<close>

theorem Serialize_counterexample:
  "Serialize example_pickle (Metrics (replicate (2 ^ 28) (''aaaaaaaaaaaaaaaa'', (0, PInt 1))))
     = Inl StructError"
proof -
  have "(2::nat) ^ 32 \<le> 2 ^ 28 * length ''aaaaaaaaaaaaaaaa''"
    by simp
  then show ?thesis
    using Serialize_names_too_long by blast
qed

section \<open>The TCP and TLS probe\<close>

lemma str_int_80: "str_int 80 = ''80''"
  by code_simp

lemma str_int_443: "str_int 443 = ''443''"
  by code_simp

text \<open>
  C7. When the connection attempt of \<open>GatherServerSocketMetrics\<close> fails, with or without
  \<open>do_ssl\<close>: on \<open>socket.timeout\<close> the probe returns exactly one sample,
  \<open><server>.<port>.timeout\<close> with value 1; on any other \<open>socket.error\<close> it returns
  exactly one sample, \<open><server>.<port>.errors\<close> with value 1. In both cases there is no
  \<open>connect_time\<close> sample and nothing else is done.
\<close>

theorem GatherServerSocketMetrics_connect_failure:
  "(create_connection w = Inl e \<and> isinstance_socket_timeout e \<longrightarrow>
      GatherServerSocketMetrics a server_arg port do_ssl w =
        Inr (Metrics [(fst server_arg @ ''.'' @ str_int port @ ''.'' @ ''timeout'',
                       (total_seconds (sock_utcnow_start w - datetime_1970), PInt 1))]))
   \<and> (create_connection w = Inl e \<and> \<not> isinstance_socket_timeout e
        \<and> isinstance_socket_error e \<longrightarrow>
      GatherServerSocketMetrics a server_arg port do_ssl w =
        Inr (Metrics [(fst server_arg @ ''.'' @ str_int port @ ''.'' @ ''errors'',
                       (total_seconds (sock_utcnow_start w - datetime_1970), PInt 1))]))"
  by (simp add: GatherServerSocketMetrics_def Prefixed_def Add_def)

text \<open>A connection to port 80 that times out, and one that is refused.\<close>

theorem GatherServerSocketMetrics_connect_failure_witness:
  "GatherServerSocketMetrics example_args (''web'', ''192.0.2.1'') 80 False
       (refused_sock\<lparr>create_connection := Inl SocketTimeout\<rparr>)
     = Inr (Metrics [(''web.80.timeout'', (3 / 2, PInt 1))])
   \<and> GatherServerSocketMetrics example_args (''web'', ''192.0.2.1'') 80 False refused_sock
     = Inr (Metrics [(''web.80.errors'', (3 / 2, PInt 1))])"
  using GatherServerSocketMetrics_connect_failure
          [of "refused_sock\<lparr>create_connection := Inl SocketTimeout\<rparr>" SocketTimeout
              example_args "(''web'', ''192.0.2.1'')" 80 False]
        GatherServerSocketMetrics_connect_failure
          [of refused_sock SocketError example_args "(''web'', ''192.0.2.1'')" 80 False]
  by (simp add: refused_sock_def str_int_80 total_seconds_def datetime_1970_def)

text \<open>
  C2 says that a failed TLS handshake after a successful connection is swallowed: the
  probe records \<open>ssl_handshake_time\<close>, skips \<open>ssl_cert_length\<close> and returns normally. The
  program does catch the \<open>ssl.SSLError\<close>, but then reads \<open>ssl_sock\<close>, which was never
  assigned: whenever the connection succeeds and the handshake raises \<open>ssl.SSLError\<close>,
  the probe raises \<open>UnboundLocalError\<close> and returns no sample set.
\<close>

theorem GatherServerSocketMetrics_swallowed_handshake_raises:
  "GatherServerSocketMetrics a server_arg port True
     (w\<lparr>create_connection := Inr (), wrap_socket := Inl SSLError\<rparr>) = Inl UnboundLocalError"
  by (simp add: GatherServerSocketMetrics_def)

section \<open>The HTTP probe\<close>

text \<open>
  C4 says that a network timeout gives \<open>timeout=1\<close> and \<open>errors=1\<close>, and any other
  network failure a single \<open>errors=1\<close>. On a \<open>URLError\<close> whose reason is a
  \<open>socket.timeout\<close> the program returns the two samples \<open>errors=1\<close>, \<open>timeout=1\<close> and no
  timing sample; on a \<open>URLError\<close> with another reason (here a \<open>socket.error\<close>) it
  returns two \<open>errors=1\<close> samples, not one.
\<close>

theorem GatherServerHttpMetrics_URLError:
  "GatherServerHttpMetrics a schema server_arg (w\<lparr>urlopen := Inl (URLError SocketTimeout)\<rparr>)
     = Inr (Metrics
         [(fst server_arg @ ''.'' @ schema @ ''.'' @ ''errors'',
             (total_seconds (http_utcnow_start w - datetime_1970), PInt 1)),
          (fst server_arg @ ''.'' @ schema @ ''.'' @ ''timeout'',
             (total_seconds (http_utcnow_start w - datetime_1970), PInt 1))])
   \<and> GatherServerHttpMetrics a schema server_arg (w\<lparr>urlopen := Inl (URLError SocketError)\<rparr>)
     = Inr (Metrics
         [(fst server_arg @ ''.'' @ schema @ ''.'' @ ''errors'',
             (total_seconds (http_utcnow_start w - datetime_1970), PInt 1)),
          (fst server_arg @ ''.'' @ schema @ ''.'' @ ''errors'',
             (total_seconds (http_utcnow_start w - datetime_1970), PInt 1))])"
  by (simp add: GatherServerHttpMetrics_def Prefixed_def Add_def Let_def)

section \<open>The ping probe\<close>

subsection \<open>What the search finds\<close>













lemma re_search_round_trip_line:
  "re_search ''round-trip min/avg/max = 0.045/0.045/0.045 ms'' = None"
  by code_simp


subsection \<open>The probe\<close>

text \<open>
  C3 says that the probe returns normally, with no rtt sample, when the utility exits with
  code zero and its output has no \<open>rtt min/avg/max/mdev = A/B/C/D ms\<close> line. In the
  program \<open>re.search\<close> then returns \<open>None\<close> and \<open>match.groupdict()\<close> raises
  \<open>AttributeError\<close>: for the summary line of a ping utility that prints
  \<open>round-trip min/avg/max\<close>, the probe raises and returns no sample set.
\<close>

theorem GatherPingMetrics_no_summary_raises:
  "GatherPingMetrics key_order a server_arg
     (w\<lparr>check_output := Inr ''round-trip min/avg/max = 0.045/0.045/0.045 ms''\<rparr>)
     = Inl AttributeError"
  by (simp add: GatherPingMetrics_def re_search_round_trip_line del: re_search.simps)




section \<open>The main loop\<close>

lemma MainLoop_from_all_return:
  "\<forall>w \<in> set ws. \<exists>sent. LoopOnce key_order pickle_dumps a w = Inr sent \<Longrightarrow>
   snd (MainLoop_from key_order pickle_dumps a t ws) = Inr (t + int (length ws) * period a)"
proof (induction ws arbitrary: t)
  case Nil
  then show ?case by simp
next
  case (Cons w ws)
  then obtain sent where s: "LoopOnce key_order pickle_dumps a w = Inr sent"
    by auto
  have "snd (MainLoop_from key_order pickle_dumps a (t + period a) ws)
          = Inr (t + period a + int (length ws) * period a)"
    using Cons by simp
  then show ?case
    using s by (simp add: Let_def algebra_simps)
qed

lemma MainLoop_from_append:
  "snd (MainLoop_from key_order pickle_dumps a t ws) = Inr t' \<Longrightarrow>
   MainLoop_from key_order pickle_dumps a t (ws @ ws') =
     (fst (MainLoop_from key_order pickle_dumps a t ws)
        @ fst (MainLoop_from key_order pickle_dumps a t' ws'),
      snd (MainLoop_from key_order pickle_dumps a t' ws'))"
proof (induction ws arbitrary: t)
  case Nil
  then show ?case by simp
next
  case (Cons w ws)
  show ?case
  proof (cases "LoopOnce key_order pickle_dumps a w")
    case (Inl e)
    with Cons.prems show ?thesis by (simp add: Let_def)
  next
    case (Inr sent)
    with Cons.prems have "snd (MainLoop_from key_order pickle_dumps a (t + period a) ws) = Inr t'"
      by (simp add: Let_def)
    from Cons.IH [OF this] show ?thesis
      using Inr by (simp add: Let_def)
  qed
qed

lemma GatherAllMetrics_example:
  "GatherAllMetrics key_order example_args (example_cycle conn_r send_r now) =
     Inr (Metrics [(''web.https.errors'', (3 / 2, PInt 1)), (''web.https.timeout'', (3 / 2, PInt 1)),
                   (''web.80.errors'', (3 / 2, PInt 1)), (''web.443.errors'', (3 / 2, PInt 1))])"
  by (simp add: GatherAllMetrics_def example_args_def example_cycle_def refused_http_def
        refused_sock_def GatherServerHttpMetrics_def GatherServerSocketMetrics_def
        Prefixed_def Add_def Metrics_add_def str_int_80 str_int_443 total_seconds_def
        datetime_1970_def)

lemma Serialize_example:
  "Serialize example_pickle
     (Prefixed
        (Metrics [(''web.https.errors'', (3 / 2, PInt 1)), (''web.https.timeout'', (3 / 2, PInt 1)),
                  (''web.80.errors'', (3 / 2, PInt 1)), (''web.443.errors'', (3 / 2, PInt 1))])
        [PrefixStr ''loga'', PrefixStr ''probe1''])
     = Inr example_sent"
proof -
  have payload: "example_pickle (metrics (Prefixed
        (Metrics [(''web.https.errors'', (3 / 2, PInt 1)), (''web.https.timeout'', (3 / 2, PInt 1)),
                  (''web.80.errors'', (3 / 2, PInt 1)), (''web.443.errors'', (3 / 2, PInt 1))])
        [PrefixStr ''loga'', PrefixStr ''probe1'']))
     = ''loga.probe1.web.https.errorsloga.probe1.web.https.timeoutloga.probe1.web.80.errorsloga.probe1.web.443.errors''"
    by (simp add: example_pickle_def Prefixed_def)
  have len: "length ''loga.probe1.web.https.errorsloga.probe1.web.https.timeoutloga.probe1.web.80.errorsloga.probe1.web.443.errors'' = 108"
    by simp
  show ?thesis
    unfolding Serialize_def Let_def payload len example_sent_def
    by (simp add: struct_pack_L_def)
qed

lemma LoopOnce_example:
  "LoopOnce key_order example_pickle example_args (example_cycle conn_r send_r now) =
     (case conn_r of Inl e \<Rightarrow> Inl e
      | Inr _ \<Rightarrow> (case send_r of Inl e \<Rightarrow> Inl e | Inr _ \<Rightarrow> Inr example_sent))"
proof -
  have id: "identifier example_args = ''probe1''"
    by (simp add: example_args_def)
  show ?thesis
    unfolding LoopOnce_def GatherAllMetrics_example id
    by (cases conn_r; cases send_r)
       (simp_all add: SendMetrics_def Serialize_example example_cycle_def)
qed

text \<open>
  C6. In every iteration of the loop whose cycle completes, the baseline of the next
  iteration is the scheduled tick \<open>next_time = last_time + period\<close>, whatever the clock
  says when the cycle is over: after \<open>n\<close> completed cycles it is the first reading of the
  clock plus \<open>n\<close> periods. In the iteration that follows, the loop sends the payload, then
  sleeps for \<open>next_time - now\<close> if the clock reads \<open>now < next_time\<close> after the cycle, and
  otherwise logs the overrun and goes on at once.
\<close>

theorem MainLoop_baseline_is_scheduled_tick:
  assumes "\<forall>w' \<in> set ws. \<exists>sent'. LoopOnce key_order pickle_dumps a w' = Inr sent'"
      and "LoopOnce key_order pickle_dumps a w = Inr sent"
  shows "snd (MainLoop key_order pickle_dumps a utcnow_first ws)
           = Inr (utcnow_first + int (length ws) * period a)
       \<and> MainLoop key_order pickle_dumps a utcnow_first (ws @ [w])
           = (fst (MainLoop key_order pickle_dumps a utcnow_first ws)
                @ [Sent sent,
                   if utcnow_after w < utcnow_first + int (length ws) * period a + period a
                   then Sleep (total_seconds
                          (utcnow_first + int (length ws) * period a + period a - utcnow_after w))
                   else LogError
                          (utcnow_after w - (utcnow_first + int (length ws) * period a + period a)
                             + period a)
                          (period a)],
              Inr (utcnow_first + int (length ws) * period a + period a))"
proof -
  have base: "snd (MainLoop_from key_order pickle_dumps a utcnow_first ws)
                = Inr (utcnow_first + int (length ws) * period a)"
    using assms(1) by (rule MainLoop_from_all_return)
  have step: "MainLoop_from key_order pickle_dumps a (utcnow_first + int (length ws) * period a) [w]
      = ([Sent sent,
          if utcnow_after w < utcnow_first + int (length ws) * period a + period a
          then Sleep (total_seconds
                 (utcnow_first + int (length ws) * period a + period a - utcnow_after w))
          else LogError
                 (utcnow_after w - (utcnow_first + int (length ws) * period a + period a)
                    + period a)
                 (period a)],
         Inr (utcnow_first + int (length ws) * period a + period a))"
    using assms(2) by (simp add: Let_def)
  show ?thesis
    unfolding MainLoop_def MainLoop_from_append [OF base] step
    using base by simp
qed

text \<open>
  A period of 60 seconds from instant 0: a first cycle over after 20 seconds is followed
  by a sleep of 40 seconds, a second cycle over at 150 seconds by the overrun message, and
  the baselines are 60 and 120 seconds.
\<close>

theorem MainLoop_baseline_is_scheduled_tick_witness:
  "snd (MainLoop [] example_pickle example_args 0 [example_cycle (Inr ()) (Inr ()) 20000000])
     = Inr 60000000
   \<and> MainLoop [] example_pickle example_args 0
        ([example_cycle (Inr ()) (Inr ()) 20000000] @ [example_cycle (Inr ()) (Inr ()) 150000000])
     = (fst (MainLoop [] example_pickle example_args 0 [example_cycle (Inr ()) (Inr ()) 20000000])
          @ [Sent example_sent, LogError 90000000 60000000],
        Inr 120000000)
   \<and> MainLoop [] example_pickle example_args 0
        ([] @ [example_cycle (Inr ()) (Inr ()) 20000000])
     = (fst (MainLoop [] example_pickle example_args 0 [])
          @ [Sent example_sent, Sleep 40],
        Inr 60000000)"
proof -
  have ok: "\<And>now. LoopOnce [] example_pickle example_args (example_cycle (Inr ()) (Inr ()) now)
              = Inr example_sent"
    by (simp add: LoopOnce_example)
  have all1: "\<forall>w' \<in> set [example_cycle (Inr ()) (Inr ()) 20000000].
               \<exists>sent'. LoopOnce [] example_pickle example_args w' = Inr sent'"
    by (simp add: ok)
  have all0: "\<forall>w' \<in> set []. \<exists>sent'. LoopOnce [] example_pickle example_args w' = Inr sent'"
    by simp
  have p: "period example_args = 60000000"
    by (simp add: example_args_def)
  have u: "\<And>c s now. utcnow_after (example_cycle c s now) = now"
    by (simp add: example_cycle_def)
  show ?thesis
    using MainLoop_baseline_is_scheduled_tick
            [OF all1 ok [of 150000000], where utcnow_first = 0]
          MainLoop_baseline_is_scheduled_tick
            [OF all0 ok [of 20000000], where utcnow_first = 0]
    by (simp add: p u total_seconds_def del: MainLoop_from.simps append.simps)
qed

text \<open>
  C1, as amended. In every cycle, if the samples are gathered and serialized and sending
  the payload to the collector fails (the connection cannot be established, or the write
  fails), the error is caught nowhere: it leaves \<open>SendMetrics\<close>, \<open>LoopOnce\<close> and
  \<open>MainLoop\<close>. The loop ends with that error after what the earlier cycles did, nothing is
  logged by the loop, and no later cycle runs.
\<close>

theorem MainLoop_send_failure_escapes:
  assumes "\<forall>w' \<in> set ws. \<exists>sent'. LoopOnce key_order pickle_dumps a w' = Inr sent'"
      and "GatherAllMetrics key_order a w = Inr gathered"
      and "Serialize pickle_dumps (Prefixed gathered [PrefixStr ''loga'', PrefixStr (identifier a)])
             = Inr serialized_metrics"
      and "graphite_create_connection w = Inl e
           \<or> (graphite_create_connection w = Inr () \<and> graphite_sendall w = Inl e)"
  shows "SendMetrics pickle_dumps (Prefixed gathered [PrefixStr ''loga'', PrefixStr (identifier a)]) w
           = Inl e
       \<and> LoopOnce key_order pickle_dumps a w = Inl e
       \<and> MainLoop key_order pickle_dumps a utcnow_first (ws @ w # later)
           = (fst (MainLoop key_order pickle_dumps a utcnow_first ws), Inl e)"
proof -
  have send: "SendMetrics pickle_dumps
                (Prefixed gathered [PrefixStr ''loga'', PrefixStr (identifier a)]) w = Inl e"
    using assms(3,4) by (auto simp add: SendMetrics_def)
  have once: "LoopOnce key_order pickle_dumps a w = Inl e"
    using assms(2) send by (simp add: LoopOnce_def)
  have base: "snd (MainLoop_from key_order pickle_dumps a utcnow_first ws)
                = Inr (utcnow_first + int (length ws) * period a)"
    using assms(1) by (rule MainLoop_from_all_return)
  have "MainLoop_from key_order pickle_dumps a (utcnow_first + int (length ws) * period a) (w # later)
          = ([], Inl e)"
    using once by (simp add: Let_def)
  then have "MainLoop key_order pickle_dumps a utcnow_first (ws @ w # later)
           = (fst (MainLoop key_order pickle_dumps a utcnow_first ws), Inl e)"
    unfolding MainLoop_def MainLoop_from_append [OF base] by simp
  with send once show ?thesis by blast
qed

text \<open>
  A first cycle that is sent, a second cycle whose write to the collector fails, and a
  third cycle that would have been sent.
\<close>

theorem MainLoop_send_failure_escapes_witness:
  "SendMetrics example_pickle
       (Prefixed
          (Metrics [(''web.https.errors'', (3 / 2, PInt 1)), (''web.https.timeout'', (3 / 2, PInt 1)),
                    (''web.80.errors'', (3 / 2, PInt 1)), (''web.443.errors'', (3 / 2, PInt 1))])
          [PrefixStr ''loga'', PrefixStr (identifier example_args)])
       (example_cycle (Inr ()) (Inl SocketError) 80000000)
     = Inl SocketError
   \<and> LoopOnce [] example_pickle example_args (example_cycle (Inr ()) (Inl SocketError) 80000000)
     = Inl SocketError
   \<and> MainLoop [] example_pickle example_args 0
       ([example_cycle (Inr ()) (Inr ()) 20000000]
          @ example_cycle (Inr ()) (Inl SocketError) 80000000
          # [example_cycle (Inr ()) (Inr ()) 140000000])
     = (fst (MainLoop [] example_pickle example_args 0 [example_cycle (Inr ()) (Inr ()) 20000000]),
        Inl SocketError)"
proof -
  have all1: "\<forall>w' \<in> set [example_cycle (Inr ()) (Inr ()) 20000000].
               \<exists>sent'. LoopOnce [] example_pickle example_args w' = Inr sent'"
    by (simp add: LoopOnce_example)
  have gathered: "GatherAllMetrics [] example_args (example_cycle (Inr ()) (Inl SocketError) 80000000)
     = Inr (Metrics [(''web.https.errors'', (3 / 2, PInt 1)), (''web.https.timeout'', (3 / 2, PInt 1)),
                     (''web.80.errors'', (3 / 2, PInt 1)), (''web.443.errors'', (3 / 2, PInt 1))])"
    by (rule GatherAllMetrics_example)
  have id: "identifier example_args = ''probe1''"
    by (simp add: example_args_def)
  have ser: "Serialize example_pickle
     (Prefixed
        (Metrics [(''web.https.errors'', (3 / 2, PInt 1)), (''web.https.timeout'', (3 / 2, PInt 1)),
                  (''web.80.errors'', (3 / 2, PInt 1)), (''web.443.errors'', (3 / 2, PInt 1))])
        [PrefixStr ''loga'', PrefixStr (identifier example_args)])
     = Inr example_sent"
    unfolding id by (rule Serialize_example)
  have fails: "graphite_create_connection (example_cycle (Inr ()) (Inl SocketError) 80000000)
                 = Inl SocketError
           \<or> (graphite_create_connection (example_cycle (Inr ()) (Inl SocketError) 80000000) = Inr ()
              \<and> graphite_sendall (example_cycle (Inr ()) (Inl SocketError) 80000000)
                  = Inl SocketError)"
    by (simp add: example_cycle_def)
  show ?thesis
    by (rule MainLoop_send_failure_escapes [OF all1 gathered ser fails])
qed

text \<open>
  C1, as stated, fails: when the connection to the collector is refused in the first
  cycle, the loop ends with the \<open>socket.error\<close>; nothing is sent or logged, and the second
  cycle, which would have been sent, does not run.
\<close>

theorem MainLoop_send_failure_counterexample:
  "MainLoop [] example_pickle example_args 0
     [example_cycle (Inl SocketError) (Inr ()) 20000000, example_cycle (Inr ()) (Inr ()) 80000000]
     = ([], Inl SocketError)"
  by (simp add: MainLoop_def LoopOnce_example)

end
